theory Spec2Isabelle
  imports Main "HOL-Library.AList" "HOL-Library.Sublist"
begin

text \<open>
  A model of the schema subsystem of the Packs SDK (\<open>schema.ts\<close>: \<open>makeObjectSchema\<close> and
  its validation, \<open>normalizeSchemaKey\<close>, \<open>normalizeSchema\<close>, \<open>generateSchema\<close>) and of
  \<open>AuthenticatingFetcher.fetch\<close>, with the properties proved of them. A function that can
  throw returns a sum, \<open>Inl\<close> the error; optional fields are options, \<open>None\<close> standing
  for \<open>undefined\<close> and \<open>null\<close>; a JavaScript object is the list of its keys and values.
\<close>

section \<open>Strings and property keys\<close>

text \<open>
  A JavaScript string is a sequence of UTF-16 code units, and the functions on property
  keys look at single characters, also outside ASCII. A key is therefore the list of its code
  units, and so is an error message, which can quote a key; \<open>utf16\<close> gives the code units of
  an ASCII literal. The strings that the schema functions only carry (descriptions, names,
  string values) and the strings of the fetcher (URLs, headers, bodies) are Isabelle
  strings.
\<close>

type_synonym codeUnit = nat

type_synonym jsstring = "codeUnit list"

definition utf16 :: "string \<Rightarrow> jsstring" where
  "utf16 s = map of_char s"

text \<open>The class \<open>[a-zA-Z0-9]\<close> of a regular expression without the unicode flag.\<close>

definition isAlnum :: "codeUnit \<Rightarrow> bool" where
  "isAlnum n = ((48 \<le> n \<and> n \<le> 57) \<or> (65 \<le> n \<and> n \<le> 90) \<or> (97 \<le> n \<and> n \<le> 122))"

text \<open>
  The white space and the line terminators of ECMAScript, which \<open>trim\<close> removes: U+0009 to
  U+000D, U+0020, U+00A0, U+1680, U+2000 to U+200A, U+2028, U+2029, U+202F, U+205F, U+3000
  and U+FEFF.
\<close>

definition isSpace :: "codeUnit \<Rightarrow> bool" where
  "isSpace n = ((0x9 \<le> n \<and> n \<le> 0xD) \<or> n = 0x20 \<or> n = 0xA0 \<or> n = 0x1680
     \<or> (0x2000 \<le> n \<and> n \<le> 0x200A) \<or> n = 0x2028 \<or> n = 0x2029 \<or> n = 0x202F
     \<or> n = 0x205F \<or> n = 0x3000 \<or> n = 0xFEFF)"

text \<open>The upper-case form of an ASCII character.\<close>

definition toUpperChar :: "codeUnit \<Rightarrow> codeUnit" where
  "toUpperChar n = (if 97 \<le> n \<and> n \<le> 122 then n - 32 else n)"

text \<open>
  \<open>toLocaleUpperCase\<close> replaces every character by its upper-case form under Unicode's case
  mapping, which can be several characters long. On ASCII this is \<open>toUpperChar\<close>: the locale
  of the host is taken to have no casing rule of its own for an ASCII letter. Outside ASCII
  the mapping is the parameter \<open>upper\<close> of the model, from a code unit to the code units of
  its upper-case form; the functions on keys pass it through, and they upper-case a
  character outside ASCII only where it is the whole string, so that it is a code unit.
\<close>

definition toLocaleUpperCase :: "(codeUnit \<Rightarrow> jsstring) \<Rightarrow> jsstring \<Rightarrow> jsstring" where
  "toLocaleUpperCase upper s =
     concat (map (\<lambda>c. if c < 128 then [toUpperChar c] else upper c) s)"

text \<open>
  The upper-case forms that the examples use: U+0149 (n preceded by an apostrophe) becomes
  U+02BC U+004E, U+00DF (sharp s) becomes \<open>SS\<close>, U+00E9 (e with acute) becomes U+00C9. The
  examples apply it to no other character outside ASCII.
\<close>

definition unicodeUpper :: "codeUnit \<Rightarrow> jsstring" where
  "unicodeUpper c =
     (if c = 0x149 then [0x2BC, 0x4E]
      else if c = 0xDF then [0x53, 0x53]
      else if c = 0xE9 then [0xC9]
      else [c])"

text \<open>The lower-case form of a header name of the fetcher, on ASCII.\<close>

definition toLowerChar :: "char \<Rightarrow> char" where
  "toLowerChar c = (let n = (of_char c :: nat) in
     if 65 \<le> n \<and> n \<le> 90 then char_of (n + 32) else c)"

definition toLocaleLowerCase :: "string \<Rightarrow> string" where
  "toLocaleLowerCase s = map toLowerChar s"

text \<open>\<open>String.prototype.trim\<close>: white space is dropped at both ends.\<close>

definition trim :: "jsstring \<Rightarrow> jsstring" where
  "trim s = rev (dropWhile isSpace (rev (dropWhile isSpace s)))"

text \<open>\<open>input.match(/[a-zA-Z0-9]+/g)\<close>: the maximal runs of letters and digits, left to right.\<close>

function alnumRuns :: "jsstring \<Rightarrow> jsstring list" where
  "alnumRuns [] = []"
| "alnumRuns (c # cs) =
     (if isAlnum c then (c # takeWhile isAlnum cs) # alnumRuns (dropWhile isAlnum cs)
      else alnumRuns cs)"
  by pat_completeness auto
termination
  by (relation "measure length") (auto simp: length_dropWhile_le less_Suc_eq_le)

text \<open>
  \<open>input[0].toLocaleUpperCase() + input.slice(1)\<close>; it is applied to the runs of a match,
  none of which is empty.
\<close>

definition titlecase :: "(codeUnit \<Rightarrow> jsstring) \<Rightarrow> jsstring \<Rightarrow> jsstring" where
  "titlecase upper input =
     (case input of [] \<Rightarrow> [] | c # cs \<Rightarrow> toLocaleUpperCase upper [c] @ cs)"

text \<open>
  Modelled from the spec: \<open>schema.ts\<close> imports \<open>pascalcase\<close> from the package of that name,
  and the package is not among the sources. The spec calls it the pascal-casing of a key
  that title-cases words and removes punctuation (\<open>Full Name:\<close> becomes \<open>FullName\<close>). The
  model follows the package's algorithm: the input is trimmed; an empty string stays
  empty; a string of one character is upper-cased; otherwise each maximal run of ASCII
  letters and digits is title-cased and the runs are concatenated, and a string without
  such a run is returned trimmed.
\<close>

definition pascalcase :: "(codeUnit \<Rightarrow> jsstring) \<Rightarrow> jsstring \<Rightarrow> jsstring" where
  "pascalcase upper v =
     (let input = trim v in
      if input = [] then []
      else if length input = 1 then toLocaleUpperCase upper input
      else (let m = alnumRuns input in
            if m \<noteq> [] then concat (map (titlecase upper) m) else input))"

text \<open>\<open>replace(/:/g, '_')\<close>: every colon becomes an underscore.\<close>

definition replaceColons :: "jsstring \<Rightarrow> jsstring" where
  "replaceColons s = map (\<lambda>c. if c = 58 then 95 else c) s"

definition normalizeSchemaKey :: "(codeUnit \<Rightarrow> jsstring) \<Rightarrow> jsstring \<Rightarrow> jsstring" where
  "normalizeSchemaKey upper key = replaceColons (pascalcase upper key)"

text \<open>
  The truth value JavaScript gives an optional string in a condition (\<open>id ? ... : undefined\<close>,
  \<open>fromKey || ...\<close>): \<open>undefined\<close> and the empty string are false.
\<close>

definition truthy :: "jsstring option \<Rightarrow> bool" where
  "truthy v = (case v of None \<Rightarrow> False | Some s \<Rightarrow> s \<noteq> [])"

section \<open>JavaScript values\<close>

text \<open>
  The values \<open>generateSchema\<close> inspects and the decoders of the fetcher return. The type
  parameter stands for JavaScript numbers, which no modelled function looks into. An object
  is the list of its own enumerable properties in enumeration order, and its prototype is
  \<open>Object.prototype\<close>. \<open>JUndefined\<close> is \<open>undefined\<close>; functions, symbols and big integers
  are not among the values.
\<close>

datatype 'n jsvalue =
    JUndefined
  | JNull
  | JBoolean bool
  | JNumber 'n
  | JString string
  | JArray "'n jsvalue list"
  | JObject "(jsstring \<times> 'n jsvalue) list"

fun typeof :: "'n jsvalue \<Rightarrow> string" where
  "typeof JUndefined = ''undefined''"
| "typeof JNull = ''object''"
| "typeof (JBoolean b) = ''boolean''"
| "typeof (JNumber n) = ''number''"
| "typeof (JString s) = ''string''"
| "typeof (JArray xs) = ''object''"
| "typeof (JObject kvs) = ''object''"

section \<open>The schema type algebra\<close>

datatype ValueType = Boolean | Number | String | Array | Object

datatype ValueHintType =
    Date | Time | DateTime | Duration | Person | Percent | Currency | ImageReference
  | ImageAttachment | Url | Markdown | Html | Embed | Reference | Attachment | Slider | Scale

text \<open>The string value of each enum member, as template literals print it.\<close>

fun hintString :: "ValueHintType \<Rightarrow> string" where
  "hintString Date = ''date''"
| "hintString Time = ''time''"
| "hintString DateTime = ''datetime''"
| "hintString Duration = ''duration''"
| "hintString Person = ''person''"
| "hintString Percent = ''percent''"
| "hintString Currency = ''currency''"
| "hintString ImageReference = ''image''"
| "hintString ImageAttachment = ''imageAttachment''"
| "hintString Url = ''url''"
| "hintString Markdown = ''markdown''"
| "hintString Html = ''html''"
| "hintString Embed = ''embed''"
| "hintString Reference = ''reference''"
| "hintString Attachment = ''attachment''"
| "hintString Slider = ''slider''"
| "hintString Scale = ''scale''"

datatype AttributionNode =
    TextAttributionNode string
  | LinkAttributionNode (anchorUrl: string) (anchorText: string)
  | ImageAttributionNode (anchorUrl: string) (imageUrl: string)

record IdentityDefinition =
  name :: string
  dynamicUrl :: "string option"
  attribution :: "AttributionNode list option"
  packId :: "int option"

text \<open>
  \<open>Schema & ObjectSchemaProperty\<close>: a property of an object schema is a schema together with
  the optional \<open>required\<close> and \<open>fromKey\<close>.
\<close>

datatype 's ObjectSchemaProperty =
  Property (schema: 's) (required: "bool option") (fromKey: "jsstring option")

text \<open>
  The \<open>Schema\<close> union. \<open>hintFields\<close> holds the hint-specific fields of a number or string
  schema (\<open>format\<close>, \<open>precision\<close>, \<open>currencyCode\<close>, ...) by name; no modelled function reads
  them. \<open>properties\<close> lists the properties in the order of \<open>Object.keys\<close>, so its keys are
  distinct in every list that stands for a JavaScript object.
\<close>

datatype 'n schema =
    BooleanSchema (description: "string option")
  | NumberSchema (description: "string option") (codaType: "ValueHintType option")
      (hintFields: "(string \<times> 'n jsvalue) list")
  | StringSchema (description: "string option") (codaType: "ValueHintType option")
      (hintFields: "(string \<times> 'n jsvalue) list")
  | ArraySchema (description: "string option") (items: "'n schema")
  | ObjectSchema (description: "string option")
      (properties: "(jsstring \<times> 'n schema ObjectSchemaProperty) list")
      (id': "jsstring option") (primary: "jsstring option") (codaType: "ValueHintType option")
      (featured: "jsstring list option") (identity: "IdentityDefinition option")

fun type' :: "'n schema \<Rightarrow> ValueType" where
  "type' (BooleanSchema d) = Boolean"
| "type' (NumberSchema d c h) = Number"
| "type' (StringSchema d c h) = String"
| "type' (ArraySchema d its) = Array"
| "type' (ObjectSchema d props i p c fe idn) = Object"



section \<open>Errors\<close>

text \<open>
  What a function throws. \<open>Error m\<close> is an error object with message \<open>m\<close>; \<open>TypeError\<close> is
  the engine's error for reading a property of \<open>undefined\<close>; \<open>HelperError\<close> is an error
  that \<open>helpers/ensure\<close> raises with a message of its own.
\<close>

datatype error = Error jsstring | TypeError | HelperError

definition thenE :: "error + 'a \<Rightarrow> error + 'b \<Rightarrow> error + 'b" where
  "thenE first next' = (case first of Inl e \<Rightarrow> Inl e | Inr _ \<Rightarrow> next')"

definition bindE :: "error + 'a \<Rightarrow> ('a \<Rightarrow> error + 'b) \<Rightarrow> error + 'b" where
  "bindE first next' = (case first of Inl e \<Rightarrow> Inl e | Inr v \<Rightarrow> next' v)"

text \<open>
  Modelled from the spec: \<open>helpers/ensure\<close> (\<open>ensureExists\<close>, \<open>assertCondition\<close>,
  \<open>ensureUnreachable\<close>) is not among the sources. By the spec a required field is checked
  to be present (neither \<open>null\<close> nor \<open>undefined\<close>) and a condition to hold, and the failure
  raises an error with the message given; \<open>ensureUnreachable\<close> always raises.
\<close>

definition ensureExists :: "'a option \<Rightarrow> jsstring option \<Rightarrow> error + 'a" where
  "ensureExists v message =
     (case v of
        None \<Rightarrow> Inl (case message of Some m \<Rightarrow> Error m | None \<Rightarrow> HelperError)
      | Some x \<Rightarrow> Inr x)"

definition assertCondition :: "bool \<Rightarrow> jsstring \<Rightarrow> error + unit" where
  "assertCondition condition message = (if condition then Inr () else Inl (Error message))"

definition ensureUnreachable :: "error + 'a" where
  "ensureUnreachable = Inl HelperError"

section \<open>Validation of object schemas\<close>

definition checkRequiredFieldInObjectSchema ::
    "'a option \<Rightarrow> jsstring \<Rightarrow> ValueHintType \<Rightarrow> error + unit" where
  "checkRequiredFieldInObjectSchema field fieldName ct =
     thenE (ensureExists field
              (Some (utf16 ''Objects with codaType \"'' @ utf16 (hintString ct)
                     @ utf16 ''\" require a \"'' @ fieldName
                     @ utf16 ''\" property in the schema definition.'')))
           (Inr ())"

text \<open>
  The names every object literal inherits from \<open>Object.prototype\<close>: \<open>properties[field]\<close> is
  defined for them even when \<open>properties\<close> has no such property of its own, and its
  \<open>required\<close> is then \<open>undefined\<close>.
\<close>

definition objectPrototypeKeys :: "jsstring list" where
  "objectPrototypeKeys =
     map utf16
       [''constructor'', ''__defineGetter__'', ''__defineSetter__'', ''hasOwnProperty'',
        ''__lookupGetter__'', ''__lookupSetter__'', ''isPrototypeOf'', ''propertyIsEnumerable'',
        ''toString'', ''valueOf'', ''__proto__'', ''toLocaleString'']"

text \<open>
  \<open>properties[field].required\<close>: reading \<open>required\<close> of a property that does not exist is a
  \<open>TypeError\<close>.
\<close>

definition readRequired ::
    "(jsstring \<times> 'n schema ObjectSchemaProperty) list \<Rightarrow> jsstring \<Rightarrow> error + bool option" where
  "readRequired props field =
     (case map_of props field of
        Some p \<Rightarrow> Inr (required p)
      | None \<Rightarrow> if field \<in> set objectPrototypeKeys then Inr None else Inl TypeError)"

definition checkSchemaPropertyIsRequired ::
    "jsstring \<Rightarrow> (jsstring \<times> 'n schema ObjectSchemaProperty) list \<Rightarrow> ValueHintType
       \<Rightarrow> error + unit" where
  "checkSchemaPropertyIsRequired field props ct =
     bindE (readRequired props field)
       (\<lambda>r. assertCondition (r = Some True)
              (utf16 ''Field \"'' @ field
               @ utf16 ''\" must be marked as required in schema with codaType \"''
               @ utf16 (hintString ct) @ utf16 ''\".''))"

text \<open>
  \<open>validateObjectSchema\<close>, with the loop over \<open>Object.entries(schema.properties)\<close> as
  \<open>validateProperties\<close>. The TypeScript signature admits object schemas only; the
  equations for the other schemas make the function total and are not reached from an
  object schema, since the loop calls it on Object-typed properties only.
\<close>

function validateObjectSchema :: "'n schema \<Rightarrow> error + unit"
  and validateProperties :: "(jsstring \<times> 'n schema ObjectSchemaProperty) list \<Rightarrow> error + unit" where
  "validateObjectSchema (ObjectSchema d props i p ct fe idn) =
     thenE (if ct = Some Reference then
              thenE (checkRequiredFieldInObjectSchema i (utf16 ''id'') Reference)
             (thenE (checkRequiredFieldInObjectSchema idn (utf16 ''identity'') Reference)
             (thenE (checkRequiredFieldInObjectSchema p (utf16 ''primary'') Reference)
             (thenE (bindE (ensureExists i None)
                       (\<lambda>field. checkSchemaPropertyIsRequired field props Reference))
                    (bindE (ensureExists p None)
                       (\<lambda>field. checkSchemaPropertyIsRequired field props Reference)))))
            else Inr ())
    (thenE (if ct = Some Person then
              thenE (checkRequiredFieldInObjectSchema i (utf16 ''id'') Person)
                    (bindE (ensureExists i None)
                       (\<lambda>field. checkSchemaPropertyIsRequired field props Person))
            else Inr ())
           (validateProperties props))"
| "validateObjectSchema (BooleanSchema d) = Inr ()"
| "validateObjectSchema (NumberSchema d c h) = Inr ()"
| "validateObjectSchema (StringSchema d c h) = Inr ()"
| "validateObjectSchema (ArraySchema d its) = Inr ()"
| "validateProperties [] = Inr ()"
| "validateProperties ((propertyKey, Property propertySchema r f) # rest) =
     thenE (if type' propertySchema = Object then validateObjectSchema propertySchema
            else Inr ())
           (validateProperties rest)"
  by pat_completeness auto
termination
  by (relation "measure (case_sum size
         (size_list (size_prod (\<lambda>_. 0) (size_ObjectSchemaProperty size))))")
     auto

text \<open>
  \<open>makeObjectSchema\<close>: the definition with \<open>type\<close> set to \<open>Object\<close> is validated and
  returned; an error of the validation is raised.
\<close>

definition makeObjectSchema :: "'n schema \<Rightarrow> error + 'n schema" where
  "makeObjectSchema schemaDef =
     (case validateObjectSchema schemaDef of Inl e \<Rightarrow> Inl e | Inr _ \<Rightarrow> Inr schemaDef)"

section \<open>Normalization\<close>

text \<open>
  \<open>normalizeSchema\<close> as a function of values. The loop over \<open>Object.keys(schema.properties)\<close>
  is a \<open>fold\<close>; \<open>normalized[normalizedKey] = ...\<close> is \<open>AList.update\<close>, which replaces the
  value of a key that is already there and appends a new key. The array and the object
  branch build a new object from the fields they name, so \<open>description\<close> is not copied.
  JavaScript enumerates the keys that are array indices before the other keys; the lists
  here keep the order of insertion, which is the same object as a mapping. The parameter
  \<open>upper\<close> is that of \<open>toLocaleUpperCase\<close>. The function gives the value returned for an
  input none of whose objects occurs twice (lemma \<open>normalizeSchemaH_refines\<close>); what the
  call does to the objects of its input is the subject of the store model below.
\<close>

function normalizeSchema :: "(codeUnit \<Rightarrow> jsstring) \<Rightarrow> 'n schema \<Rightarrow> 'n schema" where
  "normalizeSchema upper (ArraySchema d its) = ArraySchema None (normalizeSchema upper its)"
| "normalizeSchema upper (ObjectSchema d props i p ct fe idn) =
     ObjectSchema None
       (fold (\<lambda>(key, pr) normalized.
                AList.update (normalizeSchemaKey upper key)
                  (Property (normalizeSchema upper (schema pr)) (required pr)
                     (if truthy (fromKey pr) then fromKey pr
                      else if normalizeSchemaKey upper key \<noteq> key then Some key else None))
                  normalized)
             props [])
       (if truthy i then Some (normalizeSchemaKey upper (the i)) else None)
       (if truthy p then Some (normalizeSchemaKey upper (the p)) else None)
       ct
       (case fe of None \<Rightarrow> None | Some fs \<Rightarrow> Some (map (normalizeSchemaKey upper) fs))
       idn"
| "normalizeSchema upper (BooleanSchema d) = BooleanSchema d"
| "normalizeSchema upper (NumberSchema d c h) = NumberSchema d c h"
| "normalizeSchema upper (StringSchema d c h) = StringSchema d c h"
  by pat_completeness auto
termination
proof (relation "measure (\<lambda>(upper, s). size s)", goal_cases)
  case 1
  show ?case by simp
next
  case (2 upper d its)
  show ?case by simp
next
  case (3 upper d props i p ct fe idn kp key pr)
  then have "size_prod (\<lambda>_. 0) (size_ObjectSchemaProperty size) (key, pr)
      \<le> size_list (size_prod (\<lambda>_. 0) (size_ObjectSchemaProperty size)) props"
    by (simp add: size_list_estimation')
  moreover have "size (schema pr) < size_ObjectSchemaProperty size pr"
    by (cases pr) simp
  ultimately show ?case by simp
qed

section \<open>Schema inference\<close>

text \<open>
  \<open>generateSchema\<close>, with the \<open>for (const key in obj)\<close> loop as \<open>generateProperties\<close>; a
  \<open>throw\<close> of a recursive call leaves the loop and the function. The loop calls
  \<open>obj.hasOwnProperty(key)\<close> on the object itself: an object with a property of its own of
  that name, whose value is no function, makes the first call a \<open>TypeError\<close>. The
  assignment \<open>properties[key] = ...\<close> for the key \<open>__proto__\<close> sets the prototype of
  \<open>properties\<close> and adds no property.
\<close>

function generateSchema :: "'n jsvalue \<Rightarrow> error + 'n schema"
  and generateProperties ::
    "(jsstring \<times> 'n jsvalue) list \<Rightarrow> (jsstring \<times> 'n schema ObjectSchemaProperty) list
       \<Rightarrow> error + (jsstring \<times> 'n schema ObjectSchemaProperty) list" where
  "generateSchema (JArray []) = Inl (Error (utf16 ''Must have representative value.''))"
| "generateSchema (JArray (x # xs)) =
     (case generateSchema x of
        Inl e \<Rightarrow> Inl e
      | Inr its \<Rightarrow> Inr (ArraySchema None its))"
| "generateSchema JNull = Inr (StringSchema None None [])"
| "generateSchema (JObject kvs) =
     (if map_of kvs (utf16 ''hasOwnProperty'') \<noteq> None then Inl TypeError
      else (case generateProperties kvs [] of
              Inl e \<Rightarrow> Inl e
            | Inr props \<Rightarrow> Inr (ObjectSchema None props None None None None None)))"
| "generateSchema (JString s) = Inr (StringSchema None None [])"
| "generateSchema (JBoolean b) = Inr (BooleanSchema None)"
| "generateSchema (JNumber n) = Inr (NumberSchema None None [])"
| "generateSchema JUndefined = ensureUnreachable"
| "generateProperties [] props = Inr props"
| "generateProperties ((key, v) # rest) props =
     (case generateSchema v of
        Inl e \<Rightarrow> Inl e
      | Inr s \<Rightarrow>
          generateProperties rest
            (if key = utf16 ''__proto__'' then props
             else AList.update key (Property s None None) props))"
  by pat_completeness auto
termination
  by (relation "measure (case_sum size
         (\<lambda>(kvs, props). size_list (size_prod (\<lambda>_. 0) size) kvs))")
     auto

section \<open>Normalization on a store\<close>

text \<open>
  For a scalar schema \<open>normalizeSchema\<close> returns the object it was given, and
  \<open>Object.assign\<close> writes \<open>required\<close> and \<open>fromKey\<close> into the object it is given. What a call
  does to its input therefore depends on which objects are the same, and this model keeps
  the schema objects in a store: a nested schema is held by its address. Every object can
  carry a \<open>required\<close> and a \<open>fromKey\<close> of its own. The recursion is bounded by a counter,
  since the objects of a store can form a cycle; \<open>None\<close> is a run that needs more steps
  or meets an address without an object.
\<close>

type_synonym addr = nat

datatype 'n heapSchema =
    ScalarObject "'n schema"
  | ArrayObject "string option" addr
  | ObjectObject "string option" "(jsstring \<times> addr) list" "jsstring option" "jsstring option"
      "ValueHintType option" "jsstring list option" "IdentityDefinition option"

record 'n heapObject =
  content :: "'n heapSchema"
  ownRequired :: "bool option"
  ownFromKey :: "jsstring option"

record 'n heap =
  objects :: "addr \<Rightarrow> 'n heapObject option"
  nextFree :: addr

text \<open>A new object literal.\<close>

definition allocate :: "'n heapSchema \<Rightarrow> 'n heap \<Rightarrow> addr \<times> 'n heap" where
  "allocate c h =
     (nextFree h,
      h\<lparr>objects := (objects h)(nextFree h \<mapsto>
                      \<lparr>content = c, ownRequired = None, ownFromKey = None\<rparr>),
        nextFree := Suc (nextFree h)\<rparr>)"

text \<open>\<open>Object.assign(target, {required, fromKey})\<close>.\<close>

definition objectAssign ::
    "addr \<Rightarrow> bool option \<Rightarrow> jsstring option \<Rightarrow> 'n heap \<Rightarrow> 'n heap option" where
  "objectAssign target req fk h =
     (case objects h target of
        None \<Rightarrow> None
      | Some obj \<Rightarrow>
          Some (h\<lparr>objects := (objects h)(target \<mapsto> obj\<lparr>ownRequired := req, ownFromKey := fk\<rparr>)\<rparr>))"

fun normalizeSchemaH ::
    "(codeUnit \<Rightarrow> jsstring) \<Rightarrow> nat \<Rightarrow> addr \<Rightarrow> 'n heap \<Rightarrow> (addr \<times> 'n heap) option"
  and normalizePropertiesH ::
    "(codeUnit \<Rightarrow> jsstring) \<Rightarrow> nat \<Rightarrow> (jsstring \<times> addr) list \<Rightarrow> (jsstring \<times> addr) list
       \<Rightarrow> 'n heap \<Rightarrow> ((jsstring \<times> addr) list \<times> 'n heap) option" where
  "normalizeSchemaH upper 0 a h = None"
| "normalizeSchemaH upper (Suc n) a h =
     (case objects h a of
        None \<Rightarrow> None
      | Some obj \<Rightarrow>
          (case content obj of
             ArrayObject d its \<Rightarrow>
               (case normalizeSchemaH upper n its h of
                  None \<Rightarrow> None
                | Some (its', h1) \<Rightarrow> Some (allocate (ArrayObject None its') h1))
           | ObjectObject d props i p ct fe idn \<Rightarrow>
               (case normalizePropertiesH upper n props [] h of
                  None \<Rightarrow> None
                | Some (normalized, h1) \<Rightarrow>
                    Some (allocate
                            (ObjectObject None normalized
                               (if truthy i then Some (normalizeSchemaKey upper (the i))
                                else None)
                               (if truthy p then Some (normalizeSchemaKey upper (the p))
                                else None)
                               ct
                               (case fe of None \<Rightarrow> None
                                | Some fs \<Rightarrow> Some (map (normalizeSchemaKey upper) fs))
                               idn)
                            h1))
           | ScalarObject s \<Rightarrow> Some (a, h)))"
| "normalizePropertiesH upper n [] normalized h = Some (normalized, h)"
| "normalizePropertiesH upper n ((key, ref) # rest) normalized h =
     (case objects h ref of
        None \<Rightarrow> None
      | Some props \<Rightarrow>
          (case normalizeSchemaH upper n ref h of
             None \<Rightarrow> None
           | Some (target, h1) \<Rightarrow>
               (case objectAssign target (ownRequired props)
                       (if truthy (ownFromKey props) then ownFromKey props
                        else if normalizeSchemaKey upper key \<noteq> key then Some key else None)
                       h1 of
                  None \<Rightarrow> None
                | Some h2 \<Rightarrow>
                    normalizePropertiesH upper n rest
                      (AList.update (normalizeSchemaKey upper key) target normalized) h2)))"

text \<open>The schema value that the object at an address stands for.\<close>

fun schemaAt :: "nat \<Rightarrow> 'n heap \<Rightarrow> addr \<Rightarrow> 'n schema option"
  and propertiesAt ::
    "nat \<Rightarrow> 'n heap \<Rightarrow> (jsstring \<times> addr) list
       \<Rightarrow> (jsstring \<times> 'n schema ObjectSchemaProperty) list option" where
  "schemaAt 0 h a = None"
| "schemaAt (Suc n) h a =
     (case objects h a of
        None \<Rightarrow> None
      | Some obj \<Rightarrow>
          (case content obj of
             ScalarObject s \<Rightarrow> Some s
           | ArrayObject d its \<Rightarrow>
               (case schemaAt n h its of None \<Rightarrow> None | Some s \<Rightarrow> Some (ArraySchema d s))
           | ObjectObject d props i p ct fe idn \<Rightarrow>
               (case propertiesAt n h props of
                  None \<Rightarrow> None
                | Some ps \<Rightarrow> Some (ObjectSchema d ps i p ct fe idn))))"
| "propertiesAt n h [] = Some []"
| "propertiesAt n h ((key, ref) # rest) =
     (case objects h ref of
        None \<Rightarrow> None
      | Some obj \<Rightarrow>
          (case schemaAt n h ref of
             None \<Rightarrow> None
           | Some s \<Rightarrow>
               (case propertiesAt n h rest of
                  None \<Rightarrow> None
                | Some ps \<Rightarrow> Some ((key, Property s (ownRequired obj) (ownFromKey obj)) # ps))))"



section \<open>The authenticating fetcher\<close>

text \<open>
  \<open>AuthenticatingFetcher.fetch\<close>. The credential injection (\<open>_applyAuthentication\<close>), the
  transport (\<open>request-promise-native\<close>) and the two decoders (\<open>xml2js\<close>, \<open>JSON.parse\<close>) are
  parameters: each returns a value or throws. The result carries the list of the calls
  made to the transport and the decoders, in order.
\<close>

record FetchRequest =
  url :: string
  method' :: string
  requestHeaders :: "(string \<times> string) list"
  requestBody :: "string option"
  form :: "(string \<times> string) list option"
  isBinaryResponse :: bool

record TransportResponse =
  statusCode :: int
  headers :: "(string \<times> string) list"
  body :: string

datatype 'n ResponseBody = RawBody string | ParsedBody "'n jsvalue"

record 'n FetchResponse =
  status :: int
  headers' :: "(string \<times> string) list"
  body' :: "'n ResponseBody"

datatype event = TransportCalled | XmlParseCalled | JsonParseCalled

definition FetcherUserAgent :: string where
  "FetcherUserAgent = ''Coda-Server-Fetcher''"

definition MAX_CONTENT_LENGTH_BYTES :: nat where
  "MAX_CONTENT_LENGTH_BYTES = 25 * 1024 * 1024"

text \<open>The decimal digits of a number, as a template literal prints it.\<close>

function showNat :: "nat \<Rightarrow> string" where
  "showNat n = (if n < 10 then [''0123456789'' ! n]
                else showNat (n div 10) @ [''0123456789'' ! (n mod 10)])"
  by pat_completeness auto
termination
  by (relation "measure id") auto

declare showNat.simps [simp del]

text \<open>\<open>String.prototype.includes\<close>.\<close>

definition includes' :: "string \<Rightarrow> string \<Rightarrow> bool" where
  "includes' s sub = sublist sub s"

text \<open>
  The \<open>try\<close> block: the decoder is chosen by the \<open>content-type\<close> header; a decoder that
  throws and a decoded value that is not an object both leave the raw body.
\<close>

definition decodeBody ::
    "(string \<Rightarrow> error + 'n jsvalue) \<Rightarrow> (string \<Rightarrow> error + 'n jsvalue) \<Rightarrow> TransportResponse
       \<Rightarrow> event list \<times> 'n ResponseBody" where
  "decodeBody parseXml parseJson response =
     (let contentType = map_of (headers response) ''content-type'';
          xml = (case contentType of
                   None \<Rightarrow> False
                 | Some ct \<Rightarrow> ct \<noteq> [] \<and> includes' ct ''text/xml'');
          parsed = (if xml then parseXml (body response) else parseJson (body response))
      in ([if xml then XmlParseCalled else JsonParseCalled],
          case parsed of
            Inl e \<Rightarrow> RawBody (body response)
          | Inr v \<Rightarrow> if typeof v \<noteq> ''object'' then RawBody (body response) else ParsedBody v))"

definition fetch ::
    "(FetchRequest \<Rightarrow> error + FetchRequest) \<Rightarrow> (FetchRequest \<Rightarrow> error + TransportResponse)
       \<Rightarrow> (string \<Rightarrow> error + 'n jsvalue) \<Rightarrow> (string \<Rightarrow> error + 'n jsvalue) \<Rightarrow> FetchRequest
       \<Rightarrow> event list \<times> (error + 'n FetchResponse)" where
  "fetch applyAuthentication transport parseXml parseJson request =
     (case applyAuthentication request of
        Inl e \<Rightarrow> ([], Inl e)
      | Inr authed \<Rightarrow>
          (case transport
                  (authed\<lparr>method' := method' request,
                          requestHeaders :=
                            AList.update ''User-Agent'' FetcherUserAgent (requestHeaders authed),
                          isBinaryResponse := isBinaryResponse request\<rparr>) of
             Inl e \<Rightarrow> ([TransportCalled], Inl e)
           | Inr response \<Rightarrow>
               (let responseBody = body response in
                if responseBody \<noteq> [] \<and> MAX_CONTENT_LENGTH_BYTES \<le> length responseBody then
                  ([TransportCalled],
                   Inl (Error (utf16 (''Response body is too large for Coda. Body is ''
                                      @ showNat (length responseBody) @ '' bytes.''))))
                else
                  (let (events, decoded) = decodeBody parseXml parseJson response;
                       responseHeaders =
                         filter (\<lambda>(key, v). toLocaleLowerCase key \<noteq> ''authorization'')
                           (headers response)
                   in (TransportCalled # events,
                       Inr \<lparr>status = statusCode response, headers' = responseHeaders,
                            body' = decoded\<rparr>)))))"

section \<open>The invariants of object schemas\<close>

text \<open>
  The invariants of the spec, in its words: an object schema with \<open>codaType\<close> Reference
  declares \<open>id\<close>, \<open>identity\<close> and \<open>primary\<close>, and the properties named by \<open>id\<close> and by
  \<open>primary\<close> are marked \<open>required: true\<close>; one with \<open>codaType\<close> Person declares \<open>id\<close>, and
  that property is marked \<open>required: true\<close>.
\<close>

definition markedRequired ::
    "(jsstring \<times> 'n schema ObjectSchemaProperty) list \<Rightarrow> jsstring \<Rightarrow> bool" where
  "markedRequired props field =
     (case map_of props field of Some p \<Rightarrow> required p = Some True | None \<Rightarrow> False)"

definition invariantHolds :: "'n schema \<Rightarrow> bool" where
  "invariantHolds s =
     ((codaType s = Some Reference \<longrightarrow>
         id' s \<noteq> None \<and> identity s \<noteq> None \<and> primary s \<noteq> None
         \<and> markedRequired (properties s) (the (id' s))
         \<and> markedRequired (properties s) (the (primary s)))
      \<and> (codaType s = Some Person \<longrightarrow>
         id' s \<noteq> None \<and> markedRequired (properties s) (the (id' s))))"

text \<open>
  The object schemas reached from an object schema through a chain of properties whose own
  type is Object, the schema itself first.
\<close>

function directObjects :: "'n schema \<Rightarrow> 'n schema list" where
  "directObjects (ObjectSchema d props i p ct fe idn) =
     ObjectSchema d props i p ct fe idn
     # concat (map (\<lambda>(key, pr). if type' (schema pr) = Object then directObjects (schema pr)
                                else [])
                   props)"
| "directObjects (BooleanSchema d) = []"
| "directObjects (NumberSchema d c h) = []"
| "directObjects (StringSchema d c h) = []"
| "directObjects (ArraySchema d its) = []"
  by pat_completeness auto
termination
proof (relation "measure size", goal_cases)
  case 1
  show ?case by simp
next
  case (2 d props i p ct fe idn kp key pr)
  then have "size_prod (\<lambda>_. 0) (size_ObjectSchemaProperty size) (key, pr)
      \<le> size_list (size_prod (\<lambda>_. 0) (size_ObjectSchemaProperty size)) props"
    by (simp add: size_list_estimation')
  moreover have "size (schema pr) < size_ObjectSchemaProperty size pr"
    by (cases pr) simp
  ultimately show ?case by simp
qed

section \<open>The properties of a normalized schema\<close>






text \<open>
  A plain key is any key but a single character outside ASCII, white space at its ends
  apart: no character outside ASCII of a plain key is upper-cased. \<open>plainKeys\<close> says that
  the keys of a schema are plain: the property keys, the \<open>id\<close>, the \<open>primary\<close> and the
  \<open>featured\<close> keys of every object schema inside it.
\<close>

definition plainKey :: "jsstring \<Rightarrow> bool" where
  "plainKey key = (length (trim key) = 1 \<longrightarrow> hd (trim key) < 128)"


section \<open>Example inputs\<close>

definition exampleIdentity :: IdentityDefinition where
  "exampleIdentity = \<lparr>name = ''Row'', dynamicUrl = None, attribution = None, packId = None\<rparr>"

definition violatingPerson :: "nat schema" where
  "violatingPerson = ObjectSchema None [] None None (Some Person) None None"

definition exampleRequest :: FetchRequest where
  "exampleRequest = \<lparr>url = ''https://example.com/items'', method' = ''GET'',
     requestHeaders = [], requestBody = None, form = None, isBinaryResponse = False\<rparr>"

text \<open>A body of exactly 25 MiB.\<close>

definition oversizedBody :: string where
  "oversizedBody = replicate (25 * 1024 * 1024) CHR ''a''"






text \<open>
  A store with the object schema \<open>{type: object, properties: {foo: {type: string}}}\<close> at
  address 0 and its property schema at address 1.
\<close>

definition exampleStore :: "nat heap" where
  "exampleStore =
     \<lparr>objects = [0 \<mapsto> \<lparr>content = ObjectObject None [(utf16 ''foo'', 1)] None None None None None,
                        ownRequired = None, ownFromKey = None\<rparr>,
                 1 \<mapsto> \<lparr>content = ScalarObject (StringSchema None None []),
                        ownRequired = None, ownFromKey = None\<rparr>],
      nextFree = 2\<rparr>"




section \<open>Key normalization is idempotent\<close>

lemma toUpperChar_idem: "toUpperChar (toUpperChar c) = toUpperChar c"
  by (auto simp: toUpperChar_def)

lemma isAlnum_toUpperChar: "isAlnum (toUpperChar c) = isAlnum c"
  unfolding isAlnum_def toUpperChar_def by auto

lemma isSpace_toUpperChar: "isSpace (toUpperChar c) = isSpace c"
  unfolding isSpace_def toUpperChar_def by auto

lemma toUpperChar_ascii: "c < 128 \<Longrightarrow> toUpperChar c < 128"
  unfolding toUpperChar_def by auto

lemma isAlnum_not_space: "isAlnum c \<Longrightarrow> \<not> isSpace c"
  unfolding isSpace_def isAlnum_def by auto

lemma isAlnum_not_colon: "isAlnum c \<Longrightarrow> c \<noteq> 58"
  unfolding isAlnum_def by auto

lemma isAlnum_ascii: "isAlnum c \<Longrightarrow> c < 128"
  unfolding isAlnum_def by auto

lemma toUpperChar_colon: "toUpperChar c = 58 \<longleftrightarrow> c = 58"
  unfolding toUpperChar_def by auto

lemma toLocaleUpperCase_ascii: "c < 128 \<Longrightarrow> toLocaleUpperCase upper [c] = [toUpperChar c]"
  by (simp add: toLocaleUpperCase_def)

lemma titlecase_alnum: "isAlnum c \<Longrightarrow> titlecase upper (c # cs) = toUpperChar c # cs"
  by (simp add: titlecase_def toLocaleUpperCase_ascii isAlnum_ascii)

lemma dropWhile_self: "xs \<noteq> [] \<Longrightarrow> \<not> P (hd xs) \<Longrightarrow> dropWhile P xs = xs"
  by (cases xs) simp_all

lemma trim_id: "s \<noteq> [] \<Longrightarrow> \<not> isSpace (hd s) \<Longrightarrow> \<not> isSpace (last s) \<Longrightarrow> trim s = s"
  by (simp add: trim_def dropWhile_self hd_rev)

lemma last_dropWhile_keep: "dropWhile P xs \<noteq> [] \<Longrightarrow> last (dropWhile P xs) = last xs"
  by (metis last_appendR takeWhile_dropWhile_id)

lemma trim_ends:
  assumes "trim s \<noteq> []"
  shows "\<not> isSpace (hd (trim s))" and "\<not> isSpace (last (trim s))"
proof -
  let ?t = "dropWhile isSpace s"
  let ?u = "dropWhile isSpace (rev ?t)"
  from assms have u: "?u \<noteq> []" by (simp add: trim_def)
  have "rev ?t \<noteq> []" using u by (metis dropWhile.simps(1))
  then have t: "?t \<noteq> []" by (simp only: rev_is_Nil_conv not_False_eq_True)
  have "\<not> isSpace (hd ?u)" using u by (rule hd_dropWhile)
  then show "\<not> isSpace (last (trim s))" using u by (simp add: trim_def last_rev)
  have "last ?u = last (rev ?t)" using u by (rule last_dropWhile_keep)
  also have "\<dots> = hd ?t" using t by (simp add: last_rev)
  finally have "hd (trim s) = hd ?t" using u by (simp add: trim_def hd_rev)
  moreover have "\<not> isSpace (hd ?t)" using t by (rule hd_dropWhile)
  ultimately show "\<not> isSpace (hd (trim s))" by simp
qed

lemma alnumRuns_all:
  assumes "s \<noteq> []" and "\<forall>c\<in>set s. isAlnum c"
  shows "alnumRuns s = [s]"
proof (cases s)
  case Nil
  with assms show ?thesis by simp
next
  case (Cons c cs)
  with assms have "takeWhile isAlnum cs = cs" and "dropWhile isAlnum cs = []" and "isAlnum c"
    by simp_all
  with Cons show ?thesis by (simp del: dropWhile_eq_Nil_conv takeWhile_eq_all_conv)
qed

lemma alnumRuns_none: "alnumRuns s = [] \<longleftrightarrow> (\<forall>c\<in>set s. \<not> isAlnum c)"
proof (induction s rule: alnumRuns.induct)
  case 1
  show ?case by simp
next
  case (2 c cs)
  show ?case
  proof (cases "isAlnum c")
    case True
    then show ?thesis by auto
  next
    case False
    with 2(2) show ?thesis by simp
  qed
qed

lemma alnumRuns_runs: "r \<in> set (alnumRuns s) \<Longrightarrow> r \<noteq> [] \<and> (\<forall>c\<in>set r. isAlnum c)"
proof (induction s rule: alnumRuns.induct)
  case 1
  then show ?case by simp
next
  case (2 c cs)
  show ?case
  proof (cases "isAlnum c")
    case True
    with 2(3) have "r = c # takeWhile isAlnum cs \<or> r \<in> set (alnumRuns (dropWhile isAlnum cs))"
      by simp
    then show ?thesis
    proof
      assume "r = c # takeWhile isAlnum cs"
      with True show ?thesis by (auto dest: set_takeWhileD)
    next
      assume "r \<in> set (alnumRuns (dropWhile isAlnum cs))"
      with 2(1) True show ?thesis by blast
    qed
  next
    case False
    with 2(3) have "r \<in> set (alnumRuns cs)" by simp
    with 2(2) False show ?thesis by blast
  qed
qed

lemmas nsk = normalizeSchemaKey_def

lemma replaceColons_alnum: "\<forall>c\<in>set r. isAlnum c \<Longrightarrow> replaceColons r = r"
  unfolding replaceColons_def by (induction r) (auto dest: isAlnum_not_colon)

lemma replaceColons_idem: "replaceColons (replaceColons s) = replaceColons s"
  unfolding replaceColons_def by (induction s) auto

lemma titlecase_props:
  assumes "m \<noteq> []" and "\<forall>c\<in>set m. isAlnum c"
  shows "titlecase upper m \<noteq> []" and "\<forall>c\<in>set (titlecase upper m). isAlnum c"
    and "toUpperChar (hd (titlecase upper m)) = hd (titlecase upper m)"
  using assms by (cases m; simp add: titlecase_alnum isAlnum_toUpperChar toUpperChar_idem)+

lemma concat_titlecase_props:
  assumes "ms \<noteq> []" and "\<forall>m\<in>set ms. m \<noteq> [] \<and> (\<forall>c\<in>set m. isAlnum c)"
  shows "concat (map (titlecase upper) ms) \<noteq> []"
    and "\<forall>c\<in>set (concat (map (titlecase upper) ms)). isAlnum c"
    and "toUpperChar (hd (concat (map (titlecase upper) ms)))
         = hd (concat (map (titlecase upper) ms))"
proof -
  obtain m rest where ms: "ms = m # rest" using assms(1) by (cases ms) auto
  with assms(2) have m: "m \<noteq> []" "\<forall>c\<in>set m. isAlnum c" by auto
  show "concat (map (titlecase upper) ms) \<noteq> []"
    using ms titlecase_props(1)[OF m] by simp
  show "\<forall>c\<in>set (concat (map (titlecase upper) ms)). isAlnum c"
  proof
    fix c assume "c \<in> set (concat (map (titlecase upper) ms))"
    then obtain m' where m': "m' \<in> set ms" "c \<in> set (titlecase upper m')" by auto
    with assms(2) have "m' \<noteq> []" "\<forall>c\<in>set m'. isAlnum c" by auto
    from titlecase_props(2)[OF this] m'(2) show "isAlnum c" by blast
  qed
  show "toUpperChar (hd (concat (map (titlecase upper) ms)))
        = hd (concat (map (titlecase upper) ms))"
    using ms titlecase_props(1,3)[OF m] by simp
qed

lemma pascalcase_fixed:
  assumes "r \<noteq> []" and al: "\<forall>c\<in>set r. isAlnum c" and up: "toUpperChar (hd r) = hd r"
  shows "pascalcase upper r = r"
proof -
  have "\<not> isSpace (hd r)" "\<not> isSpace (last r)"
    using assms(1) al by (metis hd_in_set isAlnum_not_space, metis last_in_set isAlnum_not_space)
  with assms(1) have tr: "trim r = r" by (rule trim_id)
  show ?thesis
  proof (cases "length r = 1")
    case True
    then obtain x where x: "r = [x]" by (cases r) auto
    with al have "x < 128" by (simp add: isAlnum_ascii)
    with x up tr show ?thesis by (simp add: pascalcase_def toLocaleUpperCase_ascii)
  next
    case False
    have runs: "alnumRuns r = [r]" using assms(1) al by (rule alnumRuns_all)
    have "titlecase upper r = r" using assms(1) up al by (cases r) (simp_all add: titlecase_alnum)
    with False tr runs assms(1) show ?thesis by (simp add: pascalcase_def)
  qed
qed

lemma replaceColons_props:
  "length (replaceColons s) = length s"
  "(\<forall>c\<in>set (replaceColons s). \<not> isAlnum c) \<longleftrightarrow> (\<forall>c\<in>set s. \<not> isAlnum c)"
  "s \<noteq> [] \<Longrightarrow> isSpace (hd (replaceColons s)) = isSpace (hd s)"
  "s \<noteq> [] \<Longrightarrow> isSpace (last (replaceColons s)) = isSpace (last s)"
proof -
  have a: "isAlnum (if c = 58 then 95 else c) = isAlnum c" for c
    by (simp add: isAlnum_def)
  have b: "isSpace (if c = 58 then 95 else c) = isSpace c" for c
    by (simp add: isSpace_def)
  show "length (replaceColons s) = length s" by (simp add: replaceColons_def)
  show "(\<forall>c\<in>set (replaceColons s). \<not> isAlnum c) \<longleftrightarrow> (\<forall>c\<in>set s. \<not> isAlnum c)"
    unfolding replaceColons_def by (induction s) (simp_all add: a)
  show "s \<noteq> [] \<Longrightarrow> isSpace (hd (replaceColons s)) = isSpace (hd s)"
    unfolding replaceColons_def by (simp add: hd_map b)
  show "s \<noteq> [] \<Longrightarrow> isSpace (last (replaceColons s)) = isSpace (last s)"
    unfolding replaceColons_def by (simp add: last_map b)
qed

lemma pascalcase_no_alnum:
  assumes "2 \<le> length r" and "\<forall>c\<in>set r. \<not> isAlnum c"
    and "\<not> isSpace (hd r)" and "\<not> isSpace (last r)"
  shows "pascalcase upper r = r"
proof -
  from assms(1) have ne: "r \<noteq> []" by auto
  from ne assms(3,4) have tr: "trim r = r" by (rule trim_id)
  have "alnumRuns r = []" using assms(2) by (simp add: alnumRuns_none)
  with tr ne assms(1) show ?thesis by (simp add: pascalcase_def)
qed

lemma normalizeSchemaKey_fixed:
  assumes "plainKey k"
  shows "normalizeSchemaKey upper (normalizeSchemaKey upper k) = normalizeSchemaKey upper k"
proof -
  let ?input = "trim k"
  consider (empty) "?input = []"
    | (single) "length ?input = 1"
    | (runs) "?input \<noteq> []" "length ?input \<noteq> 1" "alnumRuns ?input \<noteq> []"
    | (none) "?input \<noteq> []" "length ?input \<noteq> 1" "alnumRuns ?input = []"
    by blast
  then show ?thesis
  proof cases
    case empty
    then have "normalizeSchemaKey upper k = []"
      by (simp add: nsk pascalcase_def replaceColons_def)
    moreover have "normalizeSchemaKey upper [] = []"
      by (simp add: nsk pascalcase_def replaceColons_def trim_def)
    ultimately show ?thesis by simp
  next
    case single
    then obtain c where c: "?input = [c]" by (cases ?input) auto
    then have "trim k \<noteq> []" by simp
    from trim_ends(1)[OF this] c have nsp: "\<not> isSpace c" by simp
    from assms single c have ascii: "c < 128" by (simp add: plainKey_def)
    define d where "d = (if toUpperChar c = 58 then 95 else toUpperChar c)"
    have k: "normalizeSchemaKey upper k = [d]"
      using c ascii by (simp add: nsk pascalcase_def toLocaleUpperCase_ascii replaceColons_def d_def)
    have dsp: "\<not> isSpace d"
      using nsp by (auto simp: d_def isSpace_toUpperChar) (simp add: isSpace_def)
    have dascii: "d < 128" using ascii by (simp add: d_def toUpperChar_ascii)
    have "trim [d] = [d]" using dsp by (simp add: trim_id)
    then have "pascalcase upper [d] = [toUpperChar d]"
      using dascii by (simp add: pascalcase_def toLocaleUpperCase_ascii)
    moreover have "toUpperChar d = d"
      by (auto simp: d_def toUpperChar_idem) (simp add: toUpperChar_def)
    moreover have "d \<noteq> 58" by (simp add: d_def)
    ultimately have "normalizeSchemaKey upper [d] = [d]" by (simp add: nsk replaceColons_def)
    with k show ?thesis by simp
  next
    case runs
    let ?r = "concat (map (titlecase upper) (alnumRuns ?input))"
    have pk: "pascalcase upper k = ?r" using runs by (simp add: pascalcase_def Let_def)
    have each: "\<forall>m\<in>set (alnumRuns ?input). m \<noteq> [] \<and> (\<forall>c\<in>set m. isAlnum c)"
      using alnumRuns_runs by blast
    note props = concat_titlecase_props[OF runs(3) each]
    have k: "normalizeSchemaKey upper k = ?r"
      using pk props(2) by (simp add: nsk replaceColons_alnum)
    have "pascalcase upper ?r = ?r" using props by (rule pascalcase_fixed)
    then have "normalizeSchemaKey upper ?r = ?r"
      using props(2) by (simp add: nsk replaceColons_alnum)
    with k show ?thesis by simp
  next
    case none
    have pk: "pascalcase upper k = ?input" using none by (simp add: pascalcase_def Let_def)
    let ?r = "replaceColons ?input"
    have k: "normalizeSchemaKey upper k = ?r" using pk by (simp add: nsk)
    have "length ?input \<noteq> 0" using none(1) by simp
    with none(2) have len: "2 \<le> length ?input" by arith
    have noal: "\<forall>c\<in>set ?input. \<not> isAlnum c" using none(3) by (simp add: alnumRuns_none)
    have "pascalcase upper ?r = ?r"
    proof (rule pascalcase_no_alnum)
      show "2 \<le> length ?r" using len by (simp add: replaceColons_props(1))
      show "\<forall>c\<in>set ?r. \<not> isAlnum c" using noal by (simp only: replaceColons_props(2))
      show "\<not> isSpace (hd ?r)"
        using trim_ends(1)[OF none(1)] none(1) by (simp add: replaceColons_props(3))
      show "\<not> isSpace (last ?r)"
        using trim_ends(2)[OF none(1)] none(1) by (simp add: replaceColons_props(4))
    qed
    then have "normalizeSchemaKey upper ?r = ?r" by (simp add: nsk replaceColons_idem)
    with k show ?thesis by simp
  qed
qed

lemma normalizeSchemaKey_plain:
  assumes "plainKey k"
  shows "normalizeSchemaKey upper k = normalizeSchemaKey upper' k"
proof -
  have t: "titlecase upper m = titlecase upper' m" if "m \<in> set (alnumRuns (trim k))" for m
  proof -
    from alnumRuns_runs[OF that] obtain c cs where "m = c # cs" "isAlnum c"
      by (cases m) auto
    then show ?thesis by (simp add: titlecase_alnum)
  qed
  have "pascalcase upper k = pascalcase upper' k"
  proof (cases "length (trim k) = 1")
    case True
    then obtain c where c: "trim k = [c]" by (cases "trim k") auto
    with assms have "c < 128" by (simp add: plainKey_def)
    with c show ?thesis by (simp add: pascalcase_def toLocaleUpperCase_ascii)
  next
    case False
    have "map (titlecase upper) (alnumRuns (trim k)) = map (titlecase upper') (alnumRuns (trim k))"
      using t by simp
    then have "concat (map (titlecase upper) (alnumRuns (trim k)))
        = concat (map (titlecase upper') (alnumRuns (trim k)))"
      by (rule arg_cong)
    with False show ?thesis by (simp add: pascalcase_def Let_def del: map_eq_conv)
  qed
  then show ?thesis by (simp add: nsk)
qed

lemma trim_empty_iff: "trim k = [] \<longleftrightarrow> (\<forall>c\<in>set k. isSpace c)"
proof
  assume "trim k = []"
  then have "\<forall>c\<in>set (dropWhile isSpace k). isSpace c"
    by (simp add: trim_def)
  then have "dropWhile isSpace k = []"
    by (metis hd_dropWhile hd_in_set)
  then show "\<forall>c\<in>set k. isSpace c" by simp
next
  assume "\<forall>c\<in>set k. isSpace c"
  then have e: "dropWhile isSpace k = []" by simp
  show "trim k = []" unfolding trim_def e by simp
qed

lemma normalizeSchemaKey_empty_iff:
  assumes "plainKey k"
  shows "normalizeSchemaKey upper k = [] \<longleftrightarrow> (\<forall>c\<in>set k. isSpace c)"
proof -
  have "pascalcase upper k = [] \<longleftrightarrow> trim k = []"
  proof (cases "length (trim k) = 1")
    case True
    then obtain c where c: "trim k = [c]" by (cases "trim k") auto
    with assms have "c < 128" by (simp add: plainKey_def)
    with c show ?thesis by (simp add: pascalcase_def toLocaleUpperCase_ascii)
  next
    case single: False
    show ?thesis
    proof (cases "alnumRuns (trim k) = []")
      case True
      with single show ?thesis by (auto simp: pascalcase_def Let_def)
    next
      case False
      have "\<forall>m\<in>set (alnumRuns (trim k)). m \<noteq> [] \<and> (\<forall>c\<in>set m. isAlnum c)"
        using alnumRuns_runs by blast
      from concat_titlecase_props(1)[OF False this] False single
      show ?thesis by (auto simp: pascalcase_def Let_def)
    qed
  qed
  then show ?thesis
    by (simp add: normalizeSchemaKey_def replaceColons_def trim_empty_iff)
qed

lemmas key_eval = normalizeSchemaKey_def pascalcase_def trim_def isSpace_def isAlnum_def
  titlecase_def toUpperChar_def replaceColons_def toLocaleUpperCase_def utf16_def
  unicodeUpper_def truthy_def plainKey_def

text \<open>
  C5 as stated fails. The upper-case form of the character U+0149 is the two characters
  U+02BC U+004E (an apostrophe and \<open>N\<close>). They are the canonical key of the key U+0149, and
  their canonical key is \<open>N\<close> alone, their one run of letters and digits.
\<close>

theorem normalizeSchemaKey_not_idempotent_special_casing:
  "normalizeSchemaKey unicodeUpper [0x149] = [0x2BC, 0x4E]
   \<and> normalizeSchemaKey unicodeUpper [0x2BC, 0x4E] = [0x4E]
   \<and> normalizeSchemaKey unicodeUpper (normalizeSchemaKey unicodeUpper [0x149])
       \<noteq> normalizeSchemaKey unicodeUpper [0x149]"
  by (simp add: key_eval)

text \<open>
  C5, amended. Key normalization is idempotent on every plain key, that is on every key
  but a single character outside ASCII (white space at its ends apart), whatever the
  upper-case forms of the characters outside ASCII are.
\<close>

theorem normalizeSchemaKey_idempotent:
  "plainKey k
   \<Longrightarrow> normalizeSchemaKey upper (normalizeSchemaKey upper k) = normalizeSchemaKey upper k"
  by (rule normalizeSchemaKey_fixed)

text \<open>
  The key \<open>Full Name:\<close> with the canonical key \<open>FullName\<close>, and a key of two characters
  outside ASCII, U+00E9 and U+0149, which is its own canonical key.
\<close>

theorem normalizeSchemaKey_idempotent_witness:
  "plainKey (utf16 ''Full Name:'')
   \<and> normalizeSchemaKey unicodeUpper (utf16 ''Full Name:'') = utf16 ''FullName''
   \<and> normalizeSchemaKey unicodeUpper (normalizeSchemaKey unicodeUpper (utf16 ''Full Name:''))
       = normalizeSchemaKey unicodeUpper (utf16 ''Full Name:'')
   \<and> plainKey [0xE9, 0x149]
   \<and> normalizeSchemaKey unicodeUpper [0xE9, 0x149] = [0xE9, 0x149]
   \<and> normalizeSchemaKey unicodeUpper (normalizeSchemaKey unicodeUpper [0xE9, 0x149])
       = normalizeSchemaKey unicodeUpper [0xE9, 0x149]"
proof -
  have p1: "plainKey (utf16 ''Full Name:'')" and p2: "plainKey [0xE9, 0x149]"
    by (simp_all add: key_eval)
  have v1: "normalizeSchemaKey unicodeUpper (utf16 ''Full Name:'') = utf16 ''FullName''"
    and v2: "normalizeSchemaKey unicodeUpper [0xE9, 0x149] = [0xE9, 0x149]"
    by (simp_all add: key_eval)
  from normalizeSchemaKey_idempotent[OF p1, of unicodeUpper]
    normalizeSchemaKey_idempotent[OF p2, of unicodeUpper] p1 p2 v1 v2
  show ?thesis by blast
qed

section \<open>Validation\<close>

lemma thenE_ok: "thenE a b = Inr v \<longleftrightarrow> (\<exists>u. a = Inr u) \<and> b = Inr v"
  by (cases a) (simp_all add: thenE_def)

lemma checkRequiredField_ok:
  "checkRequiredFieldInObjectSchema field fieldName ct = Inr u \<longleftrightarrow> field \<noteq> None"
  by (cases field) (simp_all add: checkRequiredFieldInObjectSchema_def thenE_def ensureExists_def)

lemma checkSchemaPropertyIsRequired_ok:
  "checkSchemaPropertyIsRequired field props ct = Inr u \<longleftrightarrow> markedRequired props field"
  by (simp add: checkSchemaPropertyIsRequired_def bindE_def readRequired_def
      assertCondition_def markedRequired_def split: option.splits)

lemma ensured_check_ok:
  "bindE (ensureExists i None) (\<lambda>field. checkSchemaPropertyIsRequired field props ct) = Inr u
     \<longleftrightarrow> i \<noteq> None \<and> markedRequired props (the i)"
  by (cases i) (simp_all add: bindE_def ensureExists_def checkSchemaPropertyIsRequired_ok)

lemma invariantHolds_Object:
  "invariantHolds (ObjectSchema d props i p ct fe idn) \<longleftrightarrow>
     (ct = Some Reference \<longrightarrow>
        i \<noteq> None \<and> idn \<noteq> None \<and> p \<noteq> None \<and> markedRequired props (the i)
        \<and> markedRequired props (the p))
     \<and> (ct = Some Person \<longrightarrow> i \<noteq> None \<and> markedRequired props (the i))"
  by (simp add: invariantHolds_def)

lemma validate_root:
  "validateObjectSchema (ObjectSchema d props i p ct fe idn) = Inr () \<longleftrightarrow>
     invariantHolds (ObjectSchema d props i p ct fe idn) \<and> validateProperties props = Inr ()"
  by (auto simp: thenE_ok checkRequiredField_ok ensured_check_ok invariantHolds_Object
      simp del: validateProperties.simps)

lemma list_all_concat_directObjects:
  "list_all P
      (concat (map (\<lambda>(key, pr). if type' (schema pr) = Object then directObjects (schema pr)
                                else []) props))
      \<longleftrightarrow> list_all (\<lambda>(key, pr). type' (schema pr) = Object
                        \<longrightarrow> list_all P (directObjects (schema pr))) props"
  by (induction props) auto

lemma validate_characterised:
  "validateObjectSchema (s :: 'n schema) = Inr ()
     \<longleftrightarrow> list_all invariantHolds (directObjects s)"
  "validateProperties (props :: (jsstring \<times> 'n schema ObjectSchemaProperty) list) = Inr ()
     \<longleftrightarrow> list_all (\<lambda>(key, pr). type' (schema pr) = Object
                        \<longrightarrow> list_all invariantHolds (directObjects (schema pr))) props"
proof (induction s and props rule: validateObjectSchema_validateProperties.induct)
  case (1 d props i p ct fe idn)
  have "validateObjectSchema (ObjectSchema d props i p ct fe idn) = Inr () \<longleftrightarrow>
     invariantHolds (ObjectSchema d props i p ct fe idn) \<and> validateProperties props = Inr ()"
    by (rule validate_root)
  also have "\<dots> \<longleftrightarrow> invariantHolds (ObjectSchema d props i p ct fe idn)
      \<and> list_all (\<lambda>(key, pr). type' (schema pr) = Object
                        \<longrightarrow> list_all invariantHolds (directObjects (schema pr))) props"
    using 1 by simp
  also have "\<dots> \<longleftrightarrow> list_all invariantHolds (directObjects (ObjectSchema d props i p ct fe idn))"
    by (simp add: list_all_concat_directObjects)
  finally show ?case .
next
  case (7 propertyKey propertySchema r f rest)
  then show ?case by (simp add: thenE_ok)
qed simp_all

lemma reference_missing_id_message:
  "makeObjectSchema (ObjectSchema d props None p (Some Reference) fe idn)
   = Inl (Error (utf16 ''Objects with codaType \"reference\" require a \"id\" property in the schema definition.''))"
  by (simp add: makeObjectSchema_def thenE_def bindE_def ensureExists_def
      checkRequiredFieldInObjectSchema_def utf16_def)

lemma reference_id_not_required_message:
  assumes "map_of props k = Some pr" and "required pr \<noteq> Some True"
    and "idn \<noteq> None" and "p \<noteq> None"
  shows "makeObjectSchema (ObjectSchema d props (Some k) p (Some Reference) fe idn)
   = Inl (Error (utf16 ''Field \"'' @ k
                 @ utf16 ''\" must be marked as required in schema with codaType \"reference\".''))"
  using assms
  by (auto simp: makeObjectSchema_def thenE_def bindE_def ensureExists_def
      checkRequiredFieldInObjectSchema_def checkSchemaPropertyIsRequired_def readRequired_def
      assertCondition_def utf16_def)

lemmas validate_eval = makeObjectSchema_def thenE_def bindE_def ensureExists_def
  checkRequiredFieldInObjectSchema_def checkSchemaPropertyIsRequired_def readRequired_def
  assertCondition_def objectPrototypeKeys_def utf16_def

text \<open>
  C1. A Reference or Person definition that misses a field, or whose \<open>id\<close> or \<open>primary\<close>
  property is not marked required, is refused with a message that names the \<open>codaType\<close>
  and the field. Here the definition declares \<open>id\<close>, \<open>identity\<close> and \<open>primary\<close> and marks
  the \<open>id\<close> property required, but has no property named by \<open>primary\<close>: construction
  fails with the engine's \<open>TypeError\<close>, whose message names neither.
\<close>

theorem makeObjectSchema_missing_property_TypeError:
  "makeObjectSchema
     (ObjectSchema None
        [(utf16 ''rowId'', Property (NumberSchema None None []) (Some True) None)]
        (Some (utf16 ''rowId'')) (Some (utf16 ''title'')) (Some Reference) None
        (Some exampleIdentity))
   = Inl TypeError"
  by (simp add: validate_eval)

lemma map_of_required_array_items:
  "map_option required (map_of (before @ (key, Property (ArraySchema ad its) r f) # after) field)
   = map_option required (map_of (before @ (key, Property (ArraySchema ad its') r f) # after) field)"
  by (induction before) auto

lemma readRequired_array_items:
  "readRequired (before @ (key, Property (ArraySchema ad its) r f) # after) field
   = readRequired (before @ (key, Property (ArraySchema ad its') r f) # after) field"
  using map_of_required_array_items[of before key ad its r f after field its']
  by (auto simp: readRequired_def split: option.splits)

lemma validateProperties_array_items:
  "validateProperties (before @ (key, Property (ArraySchema ad its) r f) # after)
   = validateProperties (before @ (key, Property (ArraySchema ad its') r f) # after)"
proof (induction before)
  case Nil
  show ?case by simp
next
  case (Cons x before)
  obtain k s r' f' where "x = (k, Property s r' f')"
    by (metis ObjectSchemaProperty.exhaust surj_pair)
  with Cons show ?case by simp
qed

text \<open>
  C6. Validation walks exactly the properties whose own type is Object: construction fails
  if and only if some object schema reached through a chain of Object-typed properties
  violates its invariant, and the items of an Array-typed property have no influence on
  the outcome.
\<close>

theorem validateObjectSchema_walks_object_properties:
  "((\<exists>e. makeObjectSchema (ObjectSchema d props i p ct fe idn) = Inl e)
      \<longleftrightarrow> (\<exists>t \<in> set (directObjects (ObjectSchema d props i p ct fe idn)). \<not> invariantHolds t))
   \<and> validateObjectSchema
        (ObjectSchema d (before @ (key, Property (ArraySchema ad its) r f) # after) i p ct fe idn)
     = validateObjectSchema
        (ObjectSchema d (before @ (key, Property (ArraySchema ad (BooleanSchema None)) r f) # after)
           i p ct fe idn)"
proof
  have "(\<exists>e. makeObjectSchema (ObjectSchema d props i p ct fe idn) = Inl e)
      \<longleftrightarrow> validateObjectSchema (ObjectSchema d props i p ct fe idn) \<noteq> Inr ()"
    by (cases "validateObjectSchema (ObjectSchema d props i p ct fe idn)")
       (simp_all add: makeObjectSchema_def)
  also have "\<dots> \<longleftrightarrow> \<not> list_all invariantHolds (directObjects (ObjectSchema d props i p ct fe idn))"
    by (simp only: validate_characterised(1))
  also have "\<dots> \<longleftrightarrow> (\<exists>t \<in> set (directObjects (ObjectSchema d props i p ct fe idn)).
                      \<not> invariantHolds t)"
    by (simp only: list_all_iff bex_simps ball_simps)
  finally show "(\<exists>e. makeObjectSchema (ObjectSchema d props i p ct fe idn) = Inl e)
      \<longleftrightarrow> (\<exists>t \<in> set (directObjects (ObjectSchema d props i p ct fe idn)). \<not> invariantHolds t)" .
next
  show "validateObjectSchema
        (ObjectSchema d (before @ (key, Property (ArraySchema ad its) r f) # after) i p ct fe idn)
     = validateObjectSchema
        (ObjectSchema d (before @ (key, Property (ArraySchema ad (BooleanSchema None)) r f) # after)
           i p ct fe idn)"
    by (simp add: checkSchemaPropertyIsRequired_def
        readRequired_array_items[of before key ad its r f after _ "BooleanSchema None"]
        validateProperties_array_items[of before key ad its r f after "BooleanSchema None"]
        del: validateProperties.simps)
qed

text \<open>
  A Person schema without \<open>id\<close> fails construction when it is the property of a nested
  object, and does not when it is the items of an array property.
\<close>

theorem validateObjectSchema_walks_object_properties_witness:
  "(\<exists>e. makeObjectSchema
          (ObjectSchema None
             [(utf16 ''outer'', Property
                 (ObjectSchema None [(utf16 ''owner'', Property violatingPerson None None)]
                    None None None None None) None None)]
             None None None None None) = Inl e)
   \<and> makeObjectSchema
        (ObjectSchema None [(utf16 ''owners'', Property (ArraySchema None violatingPerson) None None)]
           None None None None None)
     = Inr (ObjectSchema None [(utf16 ''owners'', Property (ArraySchema None violatingPerson) None None)]
           None None None None None)"
proof -
  let ?nested = "ObjectSchema None
             [(utf16 ''outer'', Property
                 (ObjectSchema None [(utf16 ''owner'', Property violatingPerson None None)]
                    None None None None None) None None)]
             None None None None None"
  let ?listed = "ObjectSchema None
      [(utf16 ''owners'', Property (ArraySchema None violatingPerson) None None)]
      None None None None None"
  have "\<exists>t \<in> set (directObjects ?nested). \<not> invariantHolds t"
    by (simp add: violatingPerson_def invariantHolds_def)
  then have 1: "\<exists>e. makeObjectSchema ?nested = Inl e"
    using validateObjectSchema_walks_object_properties[of None _ None None None None None]
    by blast
  have "\<not> (\<exists>t \<in> set (directObjects ?listed). \<not> invariantHolds t)"
    by (simp add: invariantHolds_def)
  then have "\<not> (\<exists>e. makeObjectSchema ?listed = Inl e)"
    using validateObjectSchema_walks_object_properties[of None _ None None None None None]
    by blast
  then have 2: "makeObjectSchema ?listed = Inr ?listed"
    by (cases "validateObjectSchema ?listed") (simp_all add: makeObjectSchema_def)
  from 1 2 show ?thesis by blast
qed

section \<open>Normalization as a function of values\<close>








section \<open>Normalization on a store and as a function of values\<close>















section \<open>Properties of normalization\<close>












text \<open>
  C3. \<open>normalizeSchema\<close> is to leave its input as it was. Run on the store, the call on
  \<open>{type: object, properties: {foo: {type: string}}}\<close> returns a new object at address 2
  that stands for the normalized schema, and leaves the input changed: the property
  schema of \<open>foo\<close>, a scalar, is returned as it is by the recursive call, and
  \<open>Object.assign\<close> writes \<open>fromKey: foo\<close> into it.
\<close>

theorem normalizeSchema_mutates_scalar_property:
  "schemaAt 3 exampleStore 0
     = Some (ObjectSchema None
               [(utf16 ''foo'', Property (StringSchema None None []) None None)]
               None None None None None)
   \<and> (\<exists>h. normalizeSchemaH unicodeUpper 3 0 exampleStore = Some (2, h)
          \<and> schemaAt 3 h 2
              = Some (normalizeSchema unicodeUpper
                  (ObjectSchema None
                     [(utf16 ''foo'', Property (StringSchema None None []) None None)]
                     None None None None None))
          \<and> schemaAt 3 h 0
              = Some (ObjectSchema None
                        [(utf16 ''foo'', Property (StringSchema None None []) None
                                           (Some (utf16 ''foo'')))]
                        None None None None None))"
proof -
  have k: "normalizeSchemaKey unicodeUpper (utf16 ''foo'') = utf16 ''Foo''"
    by (simp add: key_eval)
  have ne: "utf16 ''Foo'' \<noteq> utf16 ''foo''" by (simp add: utf16_def)
  show ?thesis
    by (simp add: exampleStore_def numeral_3_eq_3 allocate_def objectAssign_def k ne truthy_def)
qed

section \<open>Schema inference\<close>

text \<open>
  C10 as stated fails: a non-empty array whose first element is an empty array has no
  Array schema, since the error of the first element is raised.
\<close>

theorem generateSchema_array_counterexample: "\<not> (\<forall>(x :: 'n jsvalue) xs. \<exists>its. generateSchema (JArray (x # xs)) = Inr (ArraySchema None its)
         \<and> generateSchema x = Inr its)"
proof
  assume "\<forall>(x :: 'n jsvalue) xs. \<exists>its. generateSchema (JArray (x # xs)) = Inr (ArraySchema None its)
         \<and> generateSchema x = Inr its"
  then obtain its :: "'n schema" where "generateSchema (JArray [JArray []] :: 'n jsvalue) = Inr (ArraySchema None its)"
    by blast
  then show False by simp
qed

text \<open>
  C10, amended. \<open>generateSchema\<close> raises \<open>Must have representative value.\<close> for the empty
  array; for a non-empty array whose first element has a schema it returns the Array
  schema with that schema as its items, whatever the later elements are; an error raised
  for the first element is raised for the array; and \<open>null\<close> gives a String schema.
\<close>

theorem generateSchema_array:
  "generateSchema (JArray []) = Inl (Error (utf16 ''Must have representative value.''))
   \<and> (\<forall>x xs its. generateSchema x = Inr its
         \<longrightarrow> generateSchema (JArray (x # xs)) = Inr (ArraySchema None its))
   \<and> (\<forall>x xs e. generateSchema x = Inl e \<longrightarrow> generateSchema (JArray (x # xs)) = Inl e)
   \<and> generateSchema JNull = Inr (StringSchema None None [])"
  by simp

text \<open>The later elements are ignored even where they have no schema.\<close>

theorem generateSchema_array_witness:
  "generateSchema (JString ''a'') = Inr (StringSchema None None [])
   \<and> generateSchema (JArray [JString ''a'', JArray []])
       = Inr (ArraySchema None (StringSchema None None []))
   \<and> generateSchema (JArray []) = Inl (Error (utf16 ''Must have representative value.''))
   \<and> generateSchema (JArray [JArray [], JString ''a''])
       = Inl (Error (utf16 ''Must have representative value.''))"
proof -
  have h: "generateSchema (JString ''a'') = Inr (StringSchema None None [])"
    by simp
  have e: "generateSchema (JArray []) = Inl (Error (utf16 ''Must have representative value.''))"
    using generateSchema_array by blast
  from generateSchema_array h
  have "generateSchema (JArray [JString ''a'', JArray []])
       = Inr (ArraySchema None (StringSchema None None []))"
    by blast
  moreover from generateSchema_array e
  have "generateSchema (JArray [JArray [], JString ''a''])
       = Inl (Error (utf16 ''Must have representative value.''))"
    by blast
  ultimately show ?thesis using h e by blast
qed

section \<open>The fetcher\<close>

lemma length_oversizedBody: "length oversizedBody = 26214400"
  unfolding oversizedBody_def length_replicate by simp

lemma showNat_example: "showNat 26214400 = ''26214400''"
  by (simp add: showNat.simps[of 26214400] showNat.simps[of 2621440] showNat.simps[of 262144]
      showNat.simps[of 26214] showNat.simps[of 2621] showNat.simps[of 262] showNat.simps[of 26]
      showNat.simps[of 2])

lemmas lower_eval = toLocaleLowerCase_def toLowerChar_def char_of_def bit_0

lemma fetch_after_response:
  assumes "applyAuthentication request = Inr authed"
    and "transport (authed\<lparr>method' := method' request,
            requestHeaders := AList.update ''User-Agent'' FetcherUserAgent (requestHeaders authed),
            isBinaryResponse := isBinaryResponse request\<rparr>) = Inr response"
  shows "fetch applyAuthentication transport parseXml parseJson request =
     (if body response \<noteq> [] \<and> MAX_CONTENT_LENGTH_BYTES \<le> length (body response) then
        ([TransportCalled],
         Inl (Error (utf16 (''Response body is too large for Coda. Body is ''
                            @ showNat (length (body response)) @ '' bytes.''))))
      else
        (TransportCalled # fst (decodeBody parseXml parseJson response),
         Inr \<lparr>status = statusCode response,
              headers' = filter (\<lambda>(key, v). toLocaleLowerCase key \<noteq> ''authorization'')
                           (headers response),
              body' = snd (decodeBody parseXml parseJson response)\<rparr>))"
  unfolding fetch_def using assms by (simp add: Let_def case_prod_beta)

lemma fetch_returns:
  assumes "fetch applyAuthentication transport parseXml parseJson request = (events, Inr r)"
  shows "\<exists>authed response.
           applyAuthentication request = Inr authed
         \<and> transport (authed\<lparr>method' := method' request,
              requestHeaders :=
                AList.update ''User-Agent'' FetcherUserAgent (requestHeaders authed),
              isBinaryResponse := isBinaryResponse request\<rparr>) = Inr response"
  using assms unfolding fetch_def by (auto split: sum.splits)

text \<open>
  C7. Once the transport has answered, a body of at least 25 MiB makes \<open>fetch\<close> fail with
  the error that names the length of the body, after the transport call alone: no decoder
  is called, whatever the decoders are. A shorter body is not refused.
\<close>

theorem fetch_size_limit:
  assumes "applyAuthentication request = Inr authed"
    and "transport (authed\<lparr>method' := method' request,
            requestHeaders := AList.update ''User-Agent'' FetcherUserAgent (requestHeaders authed),
            isBinaryResponse := isBinaryResponse request\<rparr>) = Inr response"
  shows "(MAX_CONTENT_LENGTH_BYTES \<le> length (body response) \<longrightarrow>
            fetch applyAuthentication transport parseXml parseJson request
              = ([TransportCalled],
                 Inl (Error (utf16 (''Response body is too large for Coda. Body is ''
                                    @ showNat (length (body response)) @ '' bytes.'')))))
       \<and> (length (body response) < MAX_CONTENT_LENGTH_BYTES \<longrightarrow>
            (\<exists>events r. fetch applyAuthentication transport parseXml parseJson request
                           = (events, Inr r)))"
proof -
  have "0 < MAX_CONTENT_LENGTH_BYTES" by (simp add: MAX_CONTENT_LENGTH_BYTES_def)
  then have ne: "MAX_CONTENT_LENGTH_BYTES \<le> length (body response) \<Longrightarrow> body response \<noteq> []"
    by auto
  have "fetch applyAuthentication transport parseXml parseJson request =
     (if body response \<noteq> [] \<and> MAX_CONTENT_LENGTH_BYTES \<le> length (body response) then
        ([TransportCalled],
         Inl (Error (utf16 (''Response body is too large for Coda. Body is ''
                            @ showNat (length (body response)) @ '' bytes.''))))
      else
        (TransportCalled # fst (decodeBody parseXml parseJson response),
         Inr \<lparr>status = statusCode response,
              headers' = filter (\<lambda>(key, v). toLocaleLowerCase key \<noteq> ''authorization'')
                           (headers response),
              body' = snd (decodeBody parseXml parseJson response)\<rparr>))"
    using assms by (rule fetch_after_response)
  then show ?thesis using ne by simp
qed

text \<open>A body of exactly 25 MiB is refused; a body of two characters is not.\<close>

theorem fetch_size_limit_witness:
  "fetch Inr (\<lambda>_. Inr \<lparr>statusCode = 200, headers = [], body = oversizedBody\<rparr>)
         (\<lambda>_. Inl TypeError) (\<lambda>_. Inl TypeError) exampleRequest
     = ([TransportCalled],
        Inl (Error (utf16 ''Response body is too large for Coda. Body is 26214400 bytes.''))
          :: error + nat FetchResponse)
   \<and> (\<exists>events r. fetch Inr (\<lambda>_. Inr \<lparr>statusCode = 200, headers = [], body = ''{}''\<rparr>)
         (\<lambda>_. Inl TypeError) (\<lambda>_. Inr (JObject [])) exampleRequest
     = (events, Inr (r :: nat FetchResponse)))"
proof -
  let ?big = "\<lparr>statusCode = 200, headers = [], body = oversizedBody\<rparr>"
  let ?small = "\<lparr>statusCode = 200, headers = [], body = ''{}''\<rparr>"
  have big: "MAX_CONTENT_LENGTH_BYTES \<le> length (body ?big)"
    by (simp add: MAX_CONTENT_LENGTH_BYTES_def length_oversizedBody)
  have small: "length (body ?small) < MAX_CONTENT_LENGTH_BYTES"
    by (simp add: MAX_CONTENT_LENGTH_BYTES_def)
  have "fetch Inr (\<lambda>_. Inr ?big) (\<lambda>_. Inl TypeError) (\<lambda>_. Inl TypeError) exampleRequest
     = ([TransportCalled],
        Inl (Error (utf16 (''Response body is too large for Coda. Body is ''
                           @ showNat (length (body ?big)) @ '' bytes.'')))
          :: error + nat FetchResponse)"
    using fetch_size_limit[where applyAuthentication = Inr and authed = exampleRequest
        and request = exampleRequest and transport = "\<lambda>_. Inr ?big" and response = ?big
        and parseXml = "\<lambda>_. Inl TypeError"
        and parseJson = "\<lambda>_. Inl TypeError :: error + nat jsvalue"] big
    by blast
  then have 1: "fetch Inr (\<lambda>_. Inr ?big) (\<lambda>_. Inl TypeError) (\<lambda>_. Inl TypeError) exampleRequest
     = ([TransportCalled],
        Inl (Error (utf16 ''Response body is too large for Coda. Body is 26214400 bytes.''))
          :: error + nat FetchResponse)"
    by (simp add: length_oversizedBody showNat_example)
  have 2: "\<exists>events r. fetch Inr (\<lambda>_. Inr ?small) (\<lambda>_. Inl TypeError) (\<lambda>_. Inr (JObject []))
         exampleRequest = (events, Inr (r :: nat FetchResponse))"
    using fetch_size_limit[where applyAuthentication = Inr and authed = exampleRequest
        and request = exampleRequest and transport = "\<lambda>_. Inr ?small" and response = ?small
        and parseXml = "\<lambda>_. Inl TypeError"
        and parseJson = "\<lambda>_. Inr (JObject []) :: error + nat jsvalue"] small
    by blast
  from 1 2 show ?thesis by blast
qed

text \<open>
  C8. Every response that \<open>fetch\<close> returns carries the status code of the transport's
  response and its headers without those whose name is \<open>authorization\<close> in any case; the
  other headers are kept as they are, in order.
\<close>

theorem fetch_strips_authorization:
  assumes "fetch applyAuthentication transport parseXml parseJson request = (events, Inr r)"
  shows "\<exists>authed response.
           applyAuthentication request = Inr authed
         \<and> transport (authed\<lparr>method' := method' request,
              requestHeaders :=
                AList.update ''User-Agent'' FetcherUserAgent (requestHeaders authed),
              isBinaryResponse := isBinaryResponse request\<rparr>) = Inr response
         \<and> status r = statusCode response
         \<and> headers' r = filter (\<lambda>(key, v). toLocaleLowerCase key \<noteq> ''authorization'')
                           (headers response)
         \<and> (\<forall>(key, v) \<in> set (headers' r). toLocaleLowerCase key \<noteq> ''authorization'')"
proof -
  from fetch_returns[OF assms] obtain authed response where
    a: "applyAuthentication request = Inr authed"
    and t: "transport (authed\<lparr>method' := method' request,
              requestHeaders :=
                AList.update ''User-Agent'' FetcherUserAgent (requestHeaders authed),
              isBinaryResponse := isBinaryResponse request\<rparr>) = Inr response"
    by blast
  have "fetch applyAuthentication transport parseXml parseJson request =
     (if body response \<noteq> [] \<and> MAX_CONTENT_LENGTH_BYTES \<le> length (body response) then
        ([TransportCalled],
         Inl (Error (utf16 (''Response body is too large for Coda. Body is ''
                            @ showNat (length (body response)) @ '' bytes.''))))
      else
        (TransportCalled # fst (decodeBody parseXml parseJson response),
         Inr \<lparr>status = statusCode response,
              headers' = filter (\<lambda>(key, v). toLocaleLowerCase key \<noteq> ''authorization'')
                           (headers response),
              body' = snd (decodeBody parseXml parseJson response)\<rparr>))"
    using a t by (rule fetch_after_response)
  with assms have "status r = statusCode response
      \<and> headers' r = filter (\<lambda>(key, v). toLocaleLowerCase key \<noteq> ''authorization'')
                           (headers response)"
    by (auto split: if_splits)
  with a t show ?thesis by auto
qed

text \<open>\<open>Authorization\<close> and \<open>AUTHORIZATION\<close> are dropped, \<open>x-auth\<close> is kept.\<close>

theorem fetch_strips_authorization_witness:
  "\<exists>events r.
     fetch Inr (\<lambda>_. Inr \<lparr>statusCode = 200,
                         headers = [(''Authorization'', ''Bearer secret''),
                                    (''content-type'', ''application/json''),
                                    (''AUTHORIZATION'', ''again''),
                                    (''x-auth'', ''kept'')],
                         body = ''{}''\<rparr>)
         (\<lambda>_. Inl TypeError) (\<lambda>_. Inr (JObject [])) exampleRequest
       = (events, Inr (r :: nat FetchResponse))
     \<and> status r = 200
     \<and> headers' r = [(''content-type'', ''application/json''), (''x-auth'', ''kept'')]"
proof -
  let ?response = "\<lparr>statusCode = 200,
                         headers = [(''Authorization'', ''Bearer secret''),
                                    (''content-type'', ''application/json''),
                                    (''AUTHORIZATION'', ''again''),
                                    (''x-auth'', ''kept'')],
                         body = ''{}''\<rparr>"
  have small: "length (body ?response) < MAX_CONTENT_LENGTH_BYTES"
    by (simp add: MAX_CONTENT_LENGTH_BYTES_def)
  obtain events and r :: "nat FetchResponse" where
    f: "fetch Inr (\<lambda>_. Inr ?response) (\<lambda>_. Inl TypeError) (\<lambda>_. Inr (JObject [])) exampleRequest
          = (events, Inr r)"
    using fetch_after_response[where applyAuthentication = Inr and authed = exampleRequest
        and request = exampleRequest and transport = "\<lambda>_. Inr ?response"
        and response = ?response and parseXml = "\<lambda>_. Inl TypeError"
        and parseJson = "\<lambda>_. Inr (JObject []) :: error + nat jsvalue"] small
    by simp
  from fetch_strips_authorization[OF f]
  have "status r = 200
     \<and> headers' r = filter (\<lambda>(key, v). toLocaleLowerCase key \<noteq> ''authorization'')
                           (headers ?response)"
    by auto
  then have "status r = 200
     \<and> headers' r = [(''content-type'', ''application/json''), (''x-auth'', ''kept'')]"
    by (simp add: lower_eval)
  with f show ?thesis by blast
qed




end
